theory Spec2Isabelle
  imports Complex_Main "HOL-Library.Word"
begin

section \<open>Data model\<close>

text \<open>
  The class \<open>ImageRecognition\<close> of \<open>src/discord_bot.py\<close> (lines 419--571) is embedded.
  Its methods call the operating system (\<open>os.path.exists\<close>) and OpenCV (\<open>cv2.imread\<close>,
  \<open>cv2.matchTemplate\<close>, \<open>cv2.minMaxLoc\<close>, \<open>cv2.resize\<close>, \<open>cv2.rectangle\<close>,
  \<open>cv2.putText\<close>, \<open>cv2.imwrite\<close>). Those routines are not part of the repository; the
  methods take them as a record of functions, so every theorem about a method holds for
  whatever the library answers. A library call that may raise returns a sum whose left
  summand is the exception.

  An image is the array \<open>cv2.imread\<close> returns: rows of pixels, three 8-bit channels
  each (blue, green, red). Python floats are modelled as reals; only their order and the
  exact products with the five scale factors are used by the methods.
\<close>

type_synonym pixel = "8 word \<times> 8 word \<times> 8 word"
type_synonym image = "pixel list list"
type_synonym surface = "real list list"
type_synonym position = "int \<times> int"
type_synonym detection = "bool \<times> real \<times> position option"

text \<open>\<open>img.shape[0]\<close> (rows) and \<open>img.shape[1]\<close> (columns).\<close>

definition shape0 :: "image \<Rightarrow> nat" where
  "shape0 img = length img"

definition shape1 :: "image \<Rightarrow> nat" where
  "shape1 img = (case img of [] \<Rightarrow> 0 | r # _ \<Rightarrow> length r)"

datatype py_exception = Cv2Error | OtherException

datatype level = Debug | Info | Warning | Error

text \<open>What a call does to the outside world, in order: file-system queries, image reads
  and writes, and log records.\<close>

datatype event = Exists string | Imread string | Imwrite string | Log level

record cv2 =
  path_exists :: "string \<Rightarrow> bool"
  imread :: "string \<Rightarrow> py_exception + image option"
  matchTemplate :: "image \<Rightarrow> image \<Rightarrow> py_exception + surface"
  minMaxLoc :: "surface \<Rightarrow> py_exception + (real \<times> real \<times> position \<times> position)"
  resize :: "image \<Rightarrow> int \<times> int \<Rightarrow> py_exception + image"
  rectangle :: "image \<Rightarrow> position \<Rightarrow> position \<Rightarrow> py_exception + image"
  putText :: "image \<Rightarrow> position \<Rightarrow> py_exception + image"
  imwrite :: "string \<Rightarrow> image \<Rightarrow> py_exception + bool"

text \<open>The attributes of an \<open>ImageRecognition\<close> object (the logger is represented by the
  \<open>Log\<close> events of a call).\<close>

record ImageRecognition =
  reference_image_path :: string
  threshold :: real
  reference_image :: "image option"

section \<open>Loading the reference\<close>

text \<open>\<open>_load_reference_image\<close>: every path returns normally; the attribute
  \<open>reference_image\<close> is assigned only when \<open>cv2.imread\<close> returned.\<close>

definition load_reference_image :: "cv2 \<Rightarrow> ImageRecognition \<Rightarrow> ImageRecognition \<times> event list" where
  "load_reference_image cv self =
     (let p = reference_image_path self in
      if \<not> path_exists cv p then (self, [Exists p, Log Error])
      else (case imread cv p of
              Inl e \<Rightarrow> (self, [Exists p, Imread p, Log Error])
            | Inr None \<Rightarrow> (self\<lparr>reference_image := None\<rparr>, [Exists p, Imread p, Log Error])
            | Inr (Some img) \<Rightarrow>
                (self\<lparr>reference_image := Some img\<rparr>, [Exists p, Imread p, Log Info])))"

text \<open>\<open>__init__\<close>: stores the arguments, sets \<open>reference_image\<close> to \<open>None\<close> and loads.
  The result type has a summand for an exception leaving the constructor; the body has
  no statement that produces one.\<close>

definition ImageRecognition_init ::
  "cv2 \<Rightarrow> string \<Rightarrow> real \<Rightarrow> py_exception + (ImageRecognition \<times> event list)" where
  "ImageRecognition_init cv path thr =
     Inr (load_reference_image cv
            \<lparr>reference_image_path = path, threshold = thr, reference_image = None\<rparr>)"

section \<open>Single-scale detection\<close>

text \<open>\<open>detect_ice_butterfly\<close>. The value is the returned triple, the object after the
  call and the events of the call.\<close>

definition detect_ice_butterfly ::
  "cv2 \<Rightarrow> ImageRecognition \<Rightarrow> string \<Rightarrow> detection \<times> ImageRecognition \<times> event list" where
  "detect_ice_butterfly cv self screenshot_path =
     (case reference_image self of
        None \<Rightarrow> ((False, 0, None), self, [Log Warning])
      | Some ref \<Rightarrow>
          if \<not> path_exists cv screenshot_path
          then ((False, 0, None), self, [Exists screenshot_path, Log Error])
          else (let io = [Exists screenshot_path, Imread screenshot_path] in
            case imread cv screenshot_path of
              Inl e \<Rightarrow> ((False, 0, None), self, io @ [Log Error])
            | Inr None \<Rightarrow> ((False, 0, None), self, io @ [Log Error])
            | Inr (Some screenshot) \<Rightarrow>
               (case matchTemplate cv screenshot ref of
                  Inl e \<Rightarrow> ((False, 0, None), self, io @ [Log Error])
                | Inr result \<Rightarrow>
                   (case minMaxLoc cv result of
                      Inl e \<Rightarrow> ((False, 0, None), self, io @ [Log Error])
                    | Inr (min_val, max_val, min_loc, max_loc) \<Rightarrow>
                        if max_val \<ge> threshold self
                        then ((True, max_val, Some max_loc), self, io @ [Log Info])
                        else ((False, max_val, Some max_loc), self, io @ [Log Debug])))))"

section \<open>Multi-scale detection\<close>

text \<open>Python's \<open>int\<close> on a float truncates towards zero.\<close>

definition py_int :: "real \<Rightarrow> int" where
  "py_int x = (if 0 \<le> x then \<lfloor>x\<rfloor> else \<lceil>x\<rceil>)"

definition scales :: "real list" where
  "scales = [1/2, 3/4, 1, 5/4, 3/2]"

text \<open>The body of the \<open>for\<close> loop of \<open>detect_multiple_scales\<close>, on the remaining scale
  factors and the pair \<open>(best_confidence, best_position)\<close>. An exception raised by a
  library call leaves the loop.\<close>

fun scan_scales ::
  "cv2 \<Rightarrow> image \<Rightarrow> image \<Rightarrow> real list \<Rightarrow> real \<times> position option
     \<Rightarrow> py_exception + (real \<times> position option)" where
  "scan_scales cv ref screenshot [] best = Inr best"
| "scan_scales cv ref screenshot (scale # rest) (best_confidence, best_position) =
     (let width = py_int (real (shape1 ref) * scale);
          height = py_int (real (shape0 ref) * scale) in
      if width \<le> 0 \<or> height \<le> 0
      then scan_scales cv ref screenshot rest (best_confidence, best_position)
      else (case resize cv ref (width, height) of
              Inl e \<Rightarrow> Inl e
            | Inr resized_ref \<Rightarrow>
                if shape0 resized_ref > shape0 screenshot \<or> shape1 resized_ref > shape1 screenshot
                then scan_scales cv ref screenshot rest (best_confidence, best_position)
                else (case matchTemplate cv screenshot resized_ref of
                        Inl e \<Rightarrow> Inl e
                      | Inr result \<Rightarrow>
                         (case minMaxLoc cv result of
                            Inl e \<Rightarrow> Inl e
                          | Inr (min_val, max_val, min_loc, max_loc) \<Rightarrow>
                              if max_val > best_confidence
                              then scan_scales cv ref screenshot rest (max_val, Some max_loc)
                              else scan_scales cv ref screenshot rest
                                     (best_confidence, best_position)))))"

definition detect_multiple_scales ::
  "cv2 \<Rightarrow> ImageRecognition \<Rightarrow> string \<Rightarrow> detection \<times> ImageRecognition \<times> event list" where
  "detect_multiple_scales cv self screenshot_path =
     (case reference_image self of
        None \<Rightarrow> ((False, 0, None), self, [])
      | Some ref \<Rightarrow>
          if \<not> path_exists cv screenshot_path
          then ((False, 0, None), self, [Exists screenshot_path])
          else (let io = [Exists screenshot_path, Imread screenshot_path] in
            case imread cv screenshot_path of
              Inl e \<Rightarrow> ((False, 0, None), self, io @ [Log Error])
            | Inr None \<Rightarrow> ((False, 0, None), self, io)
            | Inr (Some screenshot) \<Rightarrow>
               (case scan_scales cv ref screenshot scales (0, None) of
                  Inl e \<Rightarrow> ((False, 0, None), self, io @ [Log Error])
                | Inr (best_confidence, best_position) \<Rightarrow>
                    if best_confidence \<ge> threshold self
                    then ((True, best_confidence, best_position), self, io @ [Log Info])
                    else ((False, best_confidence, best_position), self, io @ [Log Debug]))))"

section \<open>Visualization\<close>

text \<open>\<open>create_detection_visualization\<close>. The drawing calls change the local screenshot
  array; the value \<open>cv2.imwrite\<close> returns is not looked at.\<close>

definition create_detection_visualization ::
  "cv2 \<Rightarrow> ImageRecognition \<Rightarrow> string \<Rightarrow> position \<Rightarrow> string
     \<Rightarrow> bool \<times> ImageRecognition \<times> event list" where
  "create_detection_visualization cv self screenshot_path pos output_path =
     (if \<not> path_exists cv screenshot_path then (False, self, [Exists screenshot_path])
      else (case reference_image self of
        None \<Rightarrow> (False, self, [Exists screenshot_path])
      | Some ref \<Rightarrow>
         (let io = [Exists screenshot_path, Imread screenshot_path] in
          case imread cv screenshot_path of
            Inl e \<Rightarrow> (False, self, io @ [Log Error])
          | Inr None \<Rightarrow> (False, self, io)
          | Inr (Some screenshot) \<Rightarrow>
             (let top_left = pos;
                  bottom_right = (fst top_left + int (shape1 ref), snd top_left + int (shape0 ref)) in
              case rectangle cv screenshot top_left bottom_right of
                Inl e \<Rightarrow> (False, self, io @ [Log Error])
              | Inr boxed \<Rightarrow>
                 (case putText cv boxed (fst top_left, snd top_left - 10) of
                    Inl e \<Rightarrow> (False, self, io @ [Log Error])
                  | Inr captioned \<Rightarrow>
                     (case imwrite cv output_path captioned of
                        Inl e \<Rightarrow> (False, self, io @ [Imwrite output_path, Log Error])
                      | Inr written \<Rightarrow>
                          (True, self, io @ [Imwrite output_path, Log Info])))))))"

section \<open>A reference model of the library routines\<close>

text \<open>
  The theorems about the methods hold for every library. Closed instances, and the
  statements about what a match returns, need one library; the one below follows the
  OpenCV routines in exact real arithmetic: \<open>cv2.matchTemplate\<close> with
  \<open>TM_CCOEFF_NORMED\<close> (the correlation coefficient of the image window and the template,
  each channel taken about its own mean; the operands exchanged when the template is the
  larger one in both dimensions; the value 1 everywhere for a template without variance
  and 0 for a window without variance), \<open>cv2.minMaxLoc\<close> (the first extreme in scan
  order), \<open>cv2.imread\<close> and \<open>cv2.imwrite\<close> (failure reported by the returned value).
  Files are a map from paths to contents; a file either decodes to an image or does
  not.
\<close>

datatype content = Encoded image | Undecodable

record filesystem =
  files :: "string \<Rightarrow> content option"
  writable :: "string \<Rightarrow> bool"

definition fs_exists :: "filesystem \<Rightarrow> string \<Rightarrow> bool" where
  "fs_exists fs p = (files fs p \<noteq> None)"

text \<open>\<open>cv2.imread\<close> returns \<open>None\<close> for a file that is missing or does not decode.\<close>

definition cv_imread :: "filesystem \<Rightarrow> string \<Rightarrow> py_exception + image option" where
  "cv_imread fs p = Inr (case files fs p of Some (Encoded img) \<Rightarrow> Some img | _ \<Rightarrow> None)"

text \<open>\<open>cv2.imwrite\<close>, for a path with the extension of an image format, reports a file
  it cannot open by returning \<open>False\<close>. (For a path without such an extension the routine
  raises; that case is not represented.)\<close>

definition cv_imwrite :: "filesystem \<Rightarrow> string \<Rightarrow> image \<Rightarrow> py_exception + bool" where
  "cv_imwrite fs p img = Inr (writable fs p)"

subsection \<open>Template matching with \<open>TM_CCOEFF_NORMED\<close>\<close>

definition channels :: "pixel \<Rightarrow> real list" where
  "channels p = (case p of (b, g, r) \<Rightarrow> [real (unat b), real (unat g), real (unat r)])"

text \<open>The values of channel \<open>c\<close> of an image, row by row.\<close>

definition chan :: "nat \<Rightarrow> image \<Rightarrow> real list" where
  "chan c img = map (\<lambda>p. channels p ! c) (concat img)"

definition mean :: "real list \<Rightarrow> real" where
  "mean xs = sum_list xs / real (length xs)"

definition centred :: "real list \<Rightarrow> real list" where
  "centred xs = map (\<lambda>v. v - mean xs) xs"

text \<open>Each channel minus its own mean, the three channels one after the other.\<close>

definition deviations :: "image \<Rightarrow> real list" where
  "deviations img = concat (map (\<lambda>c. centred (chan c img)) [0, 1, 2])"

definition dot :: "real list \<Rightarrow> real list \<Rightarrow> real" where
  "dot xs ys = sum_list (map2 (*) xs ys)"

text \<open>The \<open>w\<close> by \<open>h\<close> part of an image whose top-left pixel is column \<open>x\<close>, row \<open>y\<close>.\<close>

definition window :: "image \<Rightarrow> nat \<Rightarrow> nat \<Rightarrow> nat \<Rightarrow> nat \<Rightarrow> image" where
  "window img x y w h = map (\<lambda>row. take w (drop x row)) (take h (drop y img))"

text \<open>The normalised correlation coefficient of a window and a template of the same
  size; a window without variance scores 0.\<close>

definition ccoeff_normed :: "image \<Rightarrow> image \<Rightarrow> real" where
  "ccoeff_normed wnd templ =
     (let t = deviations templ; i = deviations wnd in
      if dot i i = 0 then 0 else dot t i / (sqrt (dot t t) * sqrt (dot i i)))"

text \<open>
  \<open>cv2.matchTemplate(img, templ, cv2.TM_CCOEFF_NORMED)\<close>. When the image is smaller than
  the template in some dimension the routine requires it to be no larger in the other
  and exchanges the two; otherwise it raises. A template without variance gives a surface
  of ones. The surface has one row per vertical offset.
\<close>

definition cv_matchTemplate :: "image \<Rightarrow> image \<Rightarrow> py_exception + surface" where
  "cv_matchTemplate img templ =
     (let needswap = shape0 img < shape0 templ \<or> shape1 img < shape1 templ in
      if shape0 img = 0 \<or> shape1 img = 0 \<or> shape0 templ = 0 \<or> shape1 templ = 0 then Inl Cv2Error
      else if needswap \<and> \<not> (shape0 img \<le> shape0 templ \<and> shape1 img \<le> shape1 templ)
      then Inl Cv2Error
      else (let I = (if needswap then templ else img);
                T = (if needswap then img else templ);
                rows = shape0 I - shape0 T + 1;
                cols = shape1 I - shape1 T + 1 in
            Inr (if dot (deviations T) (deviations T) = 0
                 then replicate rows (replicate cols 1)
                 else map (\<lambda>y. map (\<lambda>x. ccoeff_normed (window I x y (shape1 T) (shape0 T)) T)
                                  [0..<cols]) [0..<rows])))"

subsection \<open>Extremes of a surface\<close>

text \<open>The entries of a surface with their positions \<open>(x, y)\<close>, in scan order.\<close>

definition entries :: "surface \<Rightarrow> (real \<times> position) list" where
  "entries s =
     concat (map (\<lambda>(y, row). map (\<lambda>(x, v). (v, (int x, int y))) (enumerate 0 row))
                 (enumerate 0 s))"

text \<open>The first largest and the first smallest entry.\<close>

fun first_max :: "real \<times> position \<Rightarrow> (real \<times> position) list \<Rightarrow> real \<times> position" where
  "first_max best [] = best"
| "first_max best (e # es) = first_max (if fst e > fst best then e else best) es"

fun first_min :: "real \<times> position \<Rightarrow> (real \<times> position) list \<Rightarrow> real \<times> position" where
  "first_min best [] = best"
| "first_min best (e # es) = first_min (if fst e < fst best then e else best) es"

definition cv_minMaxLoc :: "surface \<Rightarrow> py_exception + (real \<times> real \<times> position \<times> position)" where
  "cv_minMaxLoc s =
     (case entries s of
        [] \<Rightarrow> Inl Cv2Error
      | e # es \<Rightarrow>
          (let mn = first_min e es; mx = first_max e es in
           Inr (fst mn, fst mx, snd mn, snd mx)))"

subsection \<open>Resizing and drawing\<close>

text \<open>Resizing to \<open>(width, height)\<close>, by taking the nearest source pixel. \<open>cv2.resize\<close>
  interpolates bilinearly by default; the two agree on the shape of the result and when
  the size does not change, which is all that is used below.\<close>

definition cv_resize :: "image \<Rightarrow> int \<times> int \<Rightarrow> py_exception + image" where
  "cv_resize img dsize =
     (let w = nat (fst dsize); h = nat (snd dsize) in
      if fst dsize \<le> 0 \<or> snd dsize \<le> 0 \<or> shape0 img = 0 \<or> shape1 img = 0 then Inl Cv2Error
      else Inr (map (\<lambda>y. map (\<lambda>x. img ! (y * shape0 img div h) ! (x * shape1 img div w)) [0..<w])
                    [0..<h]))"

text \<open>Drawing paints pixels of the image green and keeps its shape: the outline of the
  rectangle, and for a caption the pixel at its anchor. The thickness of the line, the
  glyphs of the caption and the exceptions of the drawing routines on coordinates that
  do not fit 32 bits are not represented.\<close>

definition green :: pixel where
  "green = (0, 255, 0)"

definition paint :: "(int \<Rightarrow> int \<Rightarrow> bool) \<Rightarrow> image \<Rightarrow> image" where
  "paint on img =
     map (\<lambda>(y, row). map (\<lambda>(x, p). if on (int x) (int y) then green else p) (enumerate 0 row))
         (enumerate 0 img)"

definition cv_rectangle :: "image \<Rightarrow> position \<Rightarrow> position \<Rightarrow> py_exception + image" where
  "cv_rectangle img pt1 pt2 =
     Inr (paint (\<lambda>x y. fst pt1 \<le> x \<and> x \<le> fst pt2 \<and> snd pt1 \<le> y \<and> y \<le> snd pt2 \<and>
                       (x = fst pt1 \<or> x = fst pt2 \<or> y = snd pt1 \<or> y = snd pt2)) img)"

definition cv_putText :: "image \<Rightarrow> position \<Rightarrow> py_exception + image" where
  "cv_putText img org = Inr (paint (\<lambda>x y. x = fst org \<and> y = snd org) img)"

definition opencv :: "filesystem \<Rightarrow> cv2" where
  "opencv fs =
     \<lparr>path_exists = fs_exists fs, imread = cv_imread fs, matchTemplate = cv_matchTemplate,
      minMaxLoc = cv_minMaxLoc, resize = cv_resize, rectangle = cv_rectangle,
      putText = cv_putText, imwrite = cv_imwrite fs\<rparr>"

section \<open>Reading the value of a call\<close>

definition result :: "'a \<times> ImageRecognition \<times> event list \<Rightarrow> 'a" where
  "result r = fst r"

definition self_after :: "'a \<times> ImageRecognition \<times> event list \<Rightarrow> ImageRecognition" where
  "self_after r = fst (snd r)"

definition events :: "'a \<times> ImageRecognition \<times> event list \<Rightarrow> event list" where
  "events r = snd (snd r)"

definition found :: "detection \<Rightarrow> bool" where
  "found d = fst d"

definition confidence :: "detection \<Rightarrow> real" where
  "confidence d = fst (snd d)"

definition position_of :: "detection \<Rightarrow> position option" where
  "position_of d = snd (snd d)"

section \<open>Concrete inputs\<close>

text \<open>A file system without files, and the object a constructor call leaves behind when
  its reference path is missing.\<close>

definition no_files :: filesystem where
  "no_files = \<lparr>files = (\<lambda>p. None), writable = (\<lambda>p. False)\<rparr>"

definition unloaded :: "real \<Rightarrow> ImageRecognition" where
  "unloaded thr =
     \<lparr>reference_image_path = ''missing.png'', threshold = thr, reference_image = None\<rparr>"

text \<open>Pixels in the channel order of \<open>cv2.imread\<close> (blue, green, red), and an image of
  one colour.\<close>

definition black :: pixel where
  "black = (0, 0, 0)"

definition white :: pixel where
  "white = (255, 255, 255)"

definition blue :: pixel where
  "blue = (255, 0, 0)"

definition red :: pixel where
  "red = (0, 0, 255)"

definition solid :: "nat \<Rightarrow> nat \<Rightarrow> pixel \<Rightarrow> image" where
  "solid w h px = replicate h (replicate w px)"

text \<open>A file system holding a reference image and a screenshot, with no writable
  location, and the object the constructor leaves behind when the reference loaded.\<close>

definition two_files :: "image \<Rightarrow> image \<Rightarrow> filesystem" where
  "two_files ref shot =
     \<lparr>files = (\<lambda>p. if p = ''ref.png'' then Some (Encoded ref)
                   else if p = ''shot.png'' then Some (Encoded shot) else None),
      writable = (\<lambda>p. False)\<rparr>"

definition loaded :: "image \<Rightarrow> real \<Rightarrow> ImageRecognition" where
  "loaded ref thr =
     \<lparr>reference_image_path = ''ref.png'', threshold = thr, reference_image = Some ref\<rparr>"

section \<open>The scores of the scales, one by one\<close>

text \<open>
  What one scale factor contributes, stated apart from the loop: nothing when the
  requested width or height is not positive or the resized template exceeds the
  screenshot in a dimension, otherwise the largest value of the matching surface and its
  position; an exception of a library call is passed on.
\<close>

definition try_scale ::
  "cv2 \<Rightarrow> image \<Rightarrow> image \<Rightarrow> real \<Rightarrow> py_exception + (real \<times> position) option" where
  "try_scale cv ref screenshot scale =
     (let width = py_int (real (shape1 ref) * scale);
          height = py_int (real (shape0 ref) * scale) in
      if width \<le> 0 \<or> height \<le> 0 then Inr None
      else (case resize cv ref (width, height) of
              Inl e \<Rightarrow> Inl e
            | Inr resized_ref \<Rightarrow>
                if shape0 resized_ref > shape0 screenshot \<or> shape1 resized_ref > shape1 screenshot
                then Inr None
                else (case matchTemplate cv screenshot resized_ref of
                        Inl e \<Rightarrow> Inl e
                      | Inr res \<Rightarrow>
                         (case minMaxLoc cv res of
                            Inl e \<Rightarrow> Inl e
                          | Inr (min_val, max_val, min_loc, max_loc) \<Rightarrow>
                              Inr (Some (max_val, max_loc))))))"

text \<open>The scores of the valid scales, in the order of the scale factors.\<close>

fun scale_scores ::
  "cv2 \<Rightarrow> image \<Rightarrow> image \<Rightarrow> real list \<Rightarrow> py_exception + (real \<times> position) list" where
  "scale_scores cv ref screenshot [] = Inr []"
| "scale_scores cv ref screenshot (scale # rest) =
     (case try_scale cv ref screenshot scale of
        Inl e \<Rightarrow> Inl e
      | Inr r \<Rightarrow>
         (case scale_scores cv ref screenshot rest of
            Inl e \<Rightarrow> Inl e
          | Inr rs \<Rightarrow> Inr (case r of None \<Rightarrow> rs | Some x \<Rightarrow> x # rs)))"

text \<open>The largest of 0 and the scores, and the position of the first score that equals
  it when it is greater than 0.\<close>

definition best_confidence :: "(real \<times> position) list \<Rightarrow> real" where
  "best_confidence scores = Max (insert 0 (fst ` set scores))"

definition best_position :: "(real \<times> position) list \<Rightarrow> position option" where
  "best_position scores =
     (if 0 < best_confidence scores
      then map_option snd (find (\<lambda>e. fst e = best_confidence scores) scores)
      else None)"

text \<open>The update of \<open>(best_confidence, best_position)\<close> of the loop, run over a list of
  scores.\<close>

fun keep_best ::
  "real \<times> position option \<Rightarrow> (real \<times> position) list \<Rightarrow> real \<times> position option" where
  "keep_best best [] = best"
| "keep_best (c, p) ((v, loc) # es) = keep_best (if v > c then (v, Some loc) else (c, p)) es"

section \<open>Pasting a reference onto a canvas\<close>


text \<open>The canvas \<open>C\<close> with the image \<open>R\<close> written over the pixels whose top-left corner
  is column \<open>x0\<close>, row \<open>y0\<close>.\<close>

definition paste :: "image \<Rightarrow> nat \<Rightarrow> nat \<Rightarrow> image \<Rightarrow> image" where
  "paste R x0 y0 C =
     take y0 C
     @ map2 (\<lambda>r c. take x0 c @ r @ drop (x0 + length r) c) R (take (length R) (drop y0 C))
     @ drop (y0 + length R) C"

section \<open>A library that rounds\<close>

text \<open>
  The reference routines compute in exact arithmetic; the OpenCV routines compute in
  floating point, and the score of a perfect match comes out just below 1. The library
  \<open>short_by d cv\<close> is \<open>cv\<close> with every matching score lowered by \<open>d\<close>.
\<close>

definition short_by :: "real \<Rightarrow> cv2 \<Rightarrow> cv2" where
  "short_by d cv =
     cv\<lparr>matchTemplate :=
          (\<lambda>img templ. case matchTemplate cv img templ of
                          Inl e \<Rightarrow> Inl e
                        | Inr s \<Rightarrow> Inr (map (map (\<lambda>v. v - d)) s))\<rparr>"

section \<open>Properties\<close>

lemmas sel_defs = result_def self_after_def events_def found_def confidence_def position_of_def

subsection \<open>Facts about the reference library\<close>

lemma opencv_sel:
  "matchTemplate (opencv fs) = cv_matchTemplate" "minMaxLoc (opencv fs) = cv_minMaxLoc"
  "resize (opencv fs) = cv_resize" "rectangle (opencv fs) = cv_rectangle"
  "putText (opencv fs) = cv_putText" "imwrite (opencv fs) = cv_imwrite fs"
  by (simp_all add: opencv_def)

lemma opencv_read:
  "path_exists (opencv (two_files ref shot)) ''shot.png''"
  "imread (opencv (two_files ref shot)) ''shot.png'' = Inr (Some shot)"
  "path_exists (opencv (two_files ref shot)) ''ref.png''"
  "imread (opencv (two_files ref shot)) ''ref.png'' = Inr (Some ref)"
  by (simp_all add: opencv_def fs_exists_def cv_imread_def two_files_def)

lemma opencv_missing: "\<not> path_exists (opencv no_files) p"
  by (simp add: opencv_def fs_exists_def no_files_def)

lemma shape0_solid: "shape0 (solid w h px) = h"
  by (simp add: shape0_def solid_def)

lemma shape1_solid: "0 < h \<Longrightarrow> shape1 (solid w h px) = w"
  by (cases h) (simp_all add: shape1_def solid_def)

lemma shape1_map_upt: "0 < h \<Longrightarrow> shape1 (map (\<lambda>y. map (f y) [0..<w]) [0..<h]) = w"
  by (cases h) (simp_all add: shape1_def upt_conv_Cons del: upt_Suc)

text \<open>A resized image has the requested shape.\<close>

lemma cv_resize_shape:
  assumes "0 < w" "0 < h" "shape0 img \<noteq> 0" "shape1 img \<noteq> 0"
  shows "\<exists>r. cv_resize img (w, h) = Inr r \<and> shape0 r = nat h \<and> shape1 r = nat w"
proof -
  have "shape1 (map (\<lambda>y. map (\<lambda>x. img ! (y * shape0 img div nat h) ! (x * shape1 img div nat w))
                            [0..<nat w]) [0..<nat h]) = nat w"
    using assms(2) by (intro shape1_map_upt) simp
  then show ?thesis
    using assms by (simp add: cv_resize_def Let_def shape0_def[of "map _ _"])
qed

text \<open>An image of one colour has no variance.\<close>

lemma concat_replicate: "concat (replicate h (replicate w x)) = replicate (h * w) x"
  by (induction h) (simp_all add: replicate_add)

lemma chan_solid: "chan c (solid w h px) = replicate (h * w) (channels px ! c)"
  by (simp add: chan_def solid_def concat_replicate)

lemma centred_replicate: "centred (replicate n v) = replicate n 0"
  by (cases n)
     (simp_all add: centred_def mean_def sum_list_replicate map_replicate_const del: replicate_Suc)

lemma dot_zeros: "dot (replicate n 0) (replicate n 0) = 0"
  by (induction n) (simp_all add: dot_def)

lemma deviations_solid: "deviations (solid w h px) = replicate (3 * (h * w)) 0"
  by (simp add: deviations_def chan_solid centred_replicate replicate_add[symmetric])

lemma no_variance_solid: "dot (deviations (solid w h px)) (deviations (solid w h px)) = 0"
  by (simp only: deviations_solid dot_zeros)

text \<open>The extremes of a constant surface are found at its first entry.\<close>

lemma first_max_keeps: "\<forall>e\<in>set es. fst e \<le> fst best \<Longrightarrow> first_max best es = best"
  by (induction es arbitrary: best) auto

lemma first_min_keeps: "\<forall>e\<in>set es. fst best \<le> fst e \<Longrightarrow> first_min best es = best"
  by (induction es arbitrary: best) auto

lemma fst_entries: "e \<in> set (entries s) \<Longrightarrow> fst e \<in> set (concat s)"
  by (auto simp: entries_def in_set_enumerate_eq intro!: bexI[OF _ nth_mem] nth_mem)

lemma entries_Cons: "entries ((v # row) # s) = (v, (0, 0)) # tl (entries ((v # row) # s))"
  by (simp add: entries_def enumerate_Suc_eq del: upt_Suc)

lemma cv_minMaxLoc_const:
  "cv_minMaxLoc (replicate (Suc r) (replicate (Suc c) v)) = Inr (v, v, (0, 0), (0, 0))"
proof -
  let ?s = "replicate (Suc r) (replicate (Suc c) v)"
  have e: "entries ?s = (v, (0, 0)) # tl (entries ?s)"
    using entries_Cons[of v "replicate c v" "replicate r (replicate (Suc c) v)"] by simp
  have "\<forall>x\<in>set (tl (entries ?s)). fst x = v"
  proof
    fix x assume "x \<in> set (tl (entries ?s))"
    then have "x \<in> set (entries ?s)" by (metis e list.set_intros(2))
    then have "fst x \<in> set (concat ?s)" by (rule fst_entries)
    then show "fst x = v" by (auto simp del: replicate_Suc)
  qed
  then have "first_max (v, (0, 0)) (tl (entries ?s)) = (v, (0, 0))"
       "first_min (v, (0, 0)) (tl (entries ?s)) = (v, (0, 0))"
    by (auto intro!: first_max_keeps first_min_keeps)
  then show ?thesis
    unfolding cv_minMaxLoc_def by (subst e, simp add: Let_def del: replicate_Suc)+
qed

lemma one_entry: "cv_minMaxLoc [[v]] = Inr (v, v, (0, 0), (0, 0))"
  by (simp add: cv_minMaxLoc_def entries_def Let_def)


lemma cv_matchTemplate_exchanged:
  assumes "dot (deviations I) (deviations I) = 0"
    and "0 < shape0 I" "0 < shape1 I" "shape0 I < shape0 T" "shape1 I < shape1 T"
  shows "cv_matchTemplate I T
           = Inr (replicate (shape0 T - shape0 I + 1) (replicate (shape1 T - shape1 I + 1) 1))"
  using assms by (auto simp: cv_matchTemplate_def Let_def)

text \<open>A one-row image of two pixels: its shape, resizing it to its own size, and matching
  it against its mirror image and against itself.\<close>

lemma pair_shape: "shape0 [[a, b]] = 1" "shape1 [[a, b]] = 2"
  by (simp_all add: shape0_def shape1_def)

lemma pair_resize: "cv_resize [[a, b]] (2, 1) = Inr [[a, b]]"
  by (simp add: cv_resize_def shape0_def shape1_def Let_def upt_conv_Cons)

lemma mirror_match: "cv_matchTemplate [[white, black]] [[black, white]] = Inr [[-1]]"
  by (simp add: cv_matchTemplate_def shape0_def shape1_def Let_def deviations_def chan_def
        centred_def mean_def dot_def channels_def ccoeff_normed_def window_def black_def white_def)


subsection \<open>Facts about the methods\<close>

text \<open>The value of \<open>detect_ice_butterfly\<close> when every step succeeds, and when one does
  not.\<close>

lemma single_scale_result:
  assumes "reference_image self = Some ref" "path_exists cv p" "imread cv p = Inr (Some shot)"
    and "matchTemplate cv shot ref = Inr res" "minMaxLoc cv res = Inr (mn, mx, mnl, mxl)"
  shows "result (detect_ice_butterfly cv self p) = (threshold self \<le> mx, mx, Some mxl)"
  using assms by (simp add: sel_defs detect_ice_butterfly_def Let_def)

lemma detect_unavailable:
  assumes "reference_image self = None \<or> \<not> path_exists cv p \<or> imread cv p = Inr None
           \<or> (\<exists>ref shot e. reference_image self = Some ref \<and> imread cv p = Inr (Some shot)
                   \<and> matchTemplate cv shot ref = Inl e)"
  shows "result (detect_ice_butterfly cv self p) = (False, 0, None)"
  using assms
  by (auto simp: sel_defs detect_ice_butterfly_def Let_def split: option.splits sum.splits)

text \<open>The loop of \<open>detect_multiple_scales\<close> is \<open>keep_best\<close> over the scores of the
  valid scales, and leaves with the first exception.\<close>

lemma scan_scales_raises:
  "scale_scores cv ref shot ss = Inl e \<Longrightarrow> scan_scales cv ref shot ss best = Inl e"
proof (induction ss arbitrary: best)
  case Nil
  then show ?case by simp
next
  case (Cons s ss)
  obtain c p where best: "best = (c, p)" by (cases best)
  from Cons.prems show ?case
    unfolding best
    by (auto simp: try_scale_def Let_def Cons.IH
             split: sum.splits if_splits prod.splits option.splits)
qed

lemma scan_scales_scores:
  "scale_scores cv ref shot ss = Inr scores \<Longrightarrow>
   scan_scales cv ref shot ss best = Inr (keep_best best scores)"
proof (induction ss arbitrary: best scores)
  case Nil
  then show ?case by simp
next
  case (Cons s ss)
  obtain c p where best: "best = (c, p)" by (cases best)
  from Cons.prems show ?case
    unfolding best
    by (auto simp: try_scale_def Let_def Cons.IH
             split: sum.splits if_splits prod.splits option.splits)
qed

lemma fold_max_ge: "c \<le> fold max vs (c::real)"
proof (induction vs arbitrary: c)
  case Nil
  then show ?case by simp
next
  case (Cons v vs)
  have "max v c \<le> fold max vs (max v c)" by (rule Cons.IH)
  then show ?case by simp
qed

lemma Max_insert_fold: "Max (insert c (fst ` set es)) = fold max (map fst es) (c::real)"
proof -
  have "insert c (fst ` set es) = set (c # map fst es)" by simp
  then show ?thesis by (simp only: Max.set_eq_fold)
qed

lemma keep_best_fst: "fst (keep_best (c, p) es) = fold max (map fst es) c"
proof (induction es arbitrary: c p)
  case Nil
  then show ?case by simp
next
  case (Cons e es)
  obtain v loc where e: "e = (v, loc)" by (cases e)
  show ?case unfolding e by (simp add: Cons.IH max_def)
qed

lemma keep_best_snd:
  "snd (keep_best (c, p) es) =
     (if c < fold max (map fst es) c
      then map_option snd (find (\<lambda>e. fst e = fold max (map fst es) c) es)
      else p)"
proof (induction es arbitrary: c p)
  case Nil
  then show ?case by simp
next
  case (Cons e es)
  obtain v loc where e: "e = (v, loc)" by (cases e)
  show ?case
  proof (cases "v > c")
    case True
    then have m: "max v c = v" by simp
    have ge: "v \<le> fold max (map fst es) v" by (rule fold_max_ge)
    show ?thesis
      unfolding e using True ge by (auto simp: Cons.IH m)
  next
    case False
    then have m: "max v c = c" by simp
    show ?thesis
      unfolding e using False by (auto simp: Cons.IH m)
  qed
qed

lemma keep_best_from_zero:
  "keep_best (0, None) scores = (best_confidence scores, best_position scores)"
  by (simp add: prod_eq_iff keep_best_fst keep_best_snd best_confidence_def best_position_def
        Max_insert_fold del: Max_insert)

lemma multi_scale_result:
  assumes "reference_image self = Some ref" "path_exists cv p" "imread cv p = Inr (Some shot)"
    and "scale_scores cv ref shot scales = Inr scores"
  shows "result (detect_multiple_scales cv self p)
           = (threshold self \<le> best_confidence scores, best_confidence scores,
              best_position scores)"
  using assms
  by (simp add: sel_defs detect_multiple_scales_def scan_scales_scores keep_best_from_zero Let_def)

lemma multi_confidence_nonneg: "0 \<le> confidence (result (detect_multiple_scales cv self p))"
proof -
  have "0 \<le> fst best" if a: "scan_scales cv ref shot scales (0, None) = Inr best"
    for ref shot best
  proof (cases "scale_scores cv ref shot scales")
    case (Inl e)
    then show ?thesis using scan_scales_raises[OF Inl, of "(0, None)"] a by simp
  next
    case (Inr scores)
    then show ?thesis using scan_scales_scores[OF Inr, of "(0, None)"] a
      by (auto simp: keep_best_fst fold_max_ge)
  qed
  then show ?thesis
    by (auto simp: sel_defs detect_multiple_scales_def Let_def split: option.splits sum.splits)
qed

text \<open>Scales that contribute nothing.\<close>

lemma scale_scores_none:
  "\<forall>s\<in>set ss. try_scale cv ref shot s = Inr None \<Longrightarrow> scale_scores cv ref shot ss = Inr []"
  by (induction ss) auto

lemma try_scale_flat:
  assumes "py_int (real (shape0 ref) * s) \<le> 0"
  shows "try_scale cv ref shot s = Inr None"
  using assms by (simp add: try_scale_def Let_def)

lemma try_scale_too_large:
  assumes "0 < py_int (real (shape1 ref) * s)" "0 < py_int (real (shape0 ref) * s)"
    and "shape0 ref \<noteq> 0" "shape1 ref \<noteq> 0"
    and "nat (py_int (real (shape0 ref) * s)) > shape0 shot
         \<or> nat (py_int (real (shape1 ref) * s)) > shape1 shot"
  shows "try_scale (opencv fs) ref shot s = Inr None"
proof -
  obtain r where r:
    "cv_resize ref (py_int (real (shape1 ref) * s), py_int (real (shape0 ref) * s)) = Inr r"
    "shape0 r = nat (py_int (real (shape0 ref) * s))"
    "shape1 r = nat (py_int (real (shape1 ref) * s))"
    using cv_resize_shape[OF assms(1-4)] by blast
  show ?thesis
    using assms(1,2,5) r by (auto simp add: try_scale_def opencv_def Let_def)
qed

text \<open>The scores of a two-pixel reference on a two-pixel screenshot: the factors 0.5 and
  0.75 ask for height 0, the factor 1.5 for width 3.\<close>

lemma pair_scores:
  assumes "cv_matchTemplate [[c, d]] [[a, b]] = Inr [[v]]"
  shows "scale_scores (opencv fs) [[a, b]] [[c, d]] scales = Inr [(v, (0, 0)), (v, (0, 0))]"
proof -
  have valid: "try_scale (opencv fs) [[a, b]] [[c, d]] s = Inr (Some (v, (0, 0)))"
    if "py_int (2 * s) = 2" "py_int s = 1" for s
    using that assms by (simp add: try_scale_def pair_shape pair_resize one_entry opencv_def)
  have "try_scale (opencv fs) [[a, b]] [[c, d]] (1/2) = Inr None"
    by (rule try_scale_flat) (simp add: pair_shape py_int_def)
  moreover have "try_scale (opencv fs) [[a, b]] [[c, d]] (3/4) = Inr None"
    by (rule try_scale_flat) (simp add: pair_shape py_int_def)
  moreover have "try_scale (opencv fs) [[a, b]] [[c, d]] 1 = Inr (Some (v, (0, 0)))"
    by (rule valid) (simp_all add: py_int_def)
  moreover have "try_scale (opencv fs) [[a, b]] [[c, d]] (5/4) = Inr (Some (v, (0, 0)))"
    by (rule valid) (simp_all add: py_int_def)
  moreover have "try_scale (opencv fs) [[a, b]] [[c, d]] (3/2) = Inr None"
    by (rule try_scale_too_large) (simp_all add: pair_shape py_int_def)
  ultimately show ?thesis by (simp add: scales_def)
qed

text \<open>\<open>create_detection_visualization\<close> answers \<open>True\<close> whatever \<open>cv2.imwrite\<close>
  returned.\<close>

lemma visualization_ignores_imwrite:
  assumes "path_exists cv p" "reference_image self = Some ref" "imread cv p = Inr (Some shot)"
    and "rectangle cv shot pos (fst pos + int (shape1 ref), snd pos + int (shape0 ref)) = Inr boxed"
    and "putText cv boxed (fst pos, snd pos - 10) = Inr captioned"
    and "imwrite cv out captioned = Inr written"
  shows "result (create_detection_visualization cv self p pos out) = True"
  using assms by (simp add: create_detection_visualization_def sel_defs Let_def)

subsection \<open>The matching score is at most 1, and 1 on the template itself\<close>

lemma dot_Nil [simp]: "dot [] ys = 0" "dot xs [] = 0"
  by (simp_all add: dot_def)

lemma dot_Cons [simp]: "dot (x # xs) (y # ys) = x * y + dot xs ys"
  by (simp add: dot_def)

lemma dot_self_nonneg: "0 \<le> dot xs xs"
  by (induction xs) simp_all

lemma dot_Cauchy_Schwarz: "(dot xs ys)\<^sup>2 \<le> dot xs xs * dot ys ys"
proof (induction xs ys rule: list_induct2')
  case 1
  show ?case by simp
next
  case (2 x xs)
  show ?case by simp
next
  case (3 y ys)
  show ?case by simp
next
  case (4 x xs y ys)
  define S A B where "S = dot xs ys" and "A = dot xs xs" and "B = dot ys ys"
  have A: "0 \<le> A" and B: "0 \<le> B" by (simp_all add: A_def B_def dot_self_nonneg)
  have IH: "S\<^sup>2 \<le> A * B" using 4 by (simp add: S_def A_def B_def)
  define u v where "u = \<bar>x\<bar> * sqrt B" and "v = \<bar>y\<bar> * sqrt A"
  have "\<bar>S\<bar> \<le> sqrt (A * B)"
    using IH by (metis real_sqrt_abs real_sqrt_le_iff)
  then have S: "\<bar>S\<bar> \<le> sqrt A * sqrt B" by (simp add: real_sqrt_mult)
  have "x * y * S \<le> \<bar>x\<bar> * \<bar>y\<bar> * \<bar>S\<bar>"
    by (metis abs_ge_self abs_mult)
  also have "\<dots> \<le> \<bar>x\<bar> * \<bar>y\<bar> * (sqrt A * sqrt B)"
    using S by (intro mult_left_mono) simp_all
  also have "\<dots> = u * v" by (simp add: u_def v_def)
  finally have xyS: "x * y * S \<le> u * v" .
  have "0 \<le> (u - v)\<^sup>2" by simp
  then have "2 * (u * v) \<le> u\<^sup>2 + v\<^sup>2" by (simp add: power2_diff)
  also have "u\<^sup>2 = x\<^sup>2 * B" using B by (simp add: u_def power_mult_distrib)
  also have "v\<^sup>2 = y\<^sup>2 * A" using A by (simp add: v_def power_mult_distrib)
  finally have "2 * (x * y * S) \<le> x\<^sup>2 * B + y\<^sup>2 * A" using xyS by linarith
  then have "(x * y + S)\<^sup>2 \<le> (x * x + A) * (y * y + B)"
    using IH by (simp add: power2_eq_square algebra_simps)
  then show ?case by (simp add: S_def A_def B_def)
qed

lemma dot_le_norms: "dot xs ys \<le> sqrt (dot xs xs) * sqrt (dot ys ys)"
proof -
  have "\<bar>dot xs ys\<bar> \<le> sqrt (dot xs xs * dot ys ys)"
    using dot_Cauchy_Schwarz[of xs ys] by (metis real_sqrt_abs real_sqrt_le_iff)
  then show ?thesis by (simp add: real_sqrt_mult)
qed

lemma ccoeff_normed_le_1: "ccoeff_normed wnd templ \<le> 1"
proof -
  let ?t = "deviations templ" and ?i = "deviations wnd"
  have "dot ?t ?i / (sqrt (dot ?t ?t) * sqrt (dot ?i ?i)) \<le> 1"
  proof (cases "sqrt (dot ?t ?t) * sqrt (dot ?i ?i) = 0")
    case True
    show ?thesis unfolding True by simp
  next
    case False
    moreover have "0 \<le> sqrt (dot ?t ?t) * sqrt (dot ?i ?i)"
      by (simp add: dot_self_nonneg)
    ultimately have "0 < sqrt (dot ?t ?t) * sqrt (dot ?i ?i)" by linarith
    then show ?thesis using dot_le_norms[of ?t ?i] by simp
  qed
  then show ?thesis by (simp add: ccoeff_normed_def Let_def)
qed



subsection \<open>A pasted reference and the surface around it\<close>









lemma first_max_mono: "fst best \<le> fst (first_max best es)"
proof (induction es arbitrary: best)
  case Nil
  then show ?case by simp
next
  case (Cons e es)
  have "fst (if fst best < fst e then e else best) \<le> fst (first_max (if fst best < fst e then e else best) es)"
    by (rule Cons.IH)
  then show ?case by (auto split: if_splits)
qed

lemma first_max_in: "first_max best es \<in> set (best # es)"
proof (induction es arbitrary: best)
  case Nil
  then show ?case by simp
next
  case (Cons e es)
  show ?case using Cons.IH[of "if fst best < fst e then e else best"] by (auto split: if_splits)
qed

lemma first_max_ge: "x \<in> set (best # es) \<Longrightarrow> fst x \<le> fst (first_max best es)"
proof (induction es arbitrary: best)
  case Nil
  then show ?case by simp
next
  case (Cons e es)
  let ?b = "if fst best < fst e then e else best"
  have m: "fst ?b \<le> fst (first_max ?b es)" by (rule first_max_mono)
  from Cons.prems consider "x = best" | "x = e" | "x \<in> set es" by auto
  then show ?case
  proof cases
    case 1
    then show ?thesis using m by (auto split: if_splits)
  next
    case 2
    then show ?thesis using m by (auto split: if_splits)
  next
    case 3
    then show ?thesis using Cons.IH[of ?b] by simp
  qed
qed

lemma cv_minMaxLoc_max:
  assumes "entries s \<noteq> []"
  shows "\<exists>mn mx mnl mxl. cv_minMaxLoc s = Inr (mn, mx, mnl, mxl)
           \<and> (mx, mxl) \<in> set (entries s) \<and> (\<forall>e\<in>set (entries s). fst e \<le> mx)"
proof -
  obtain e es where e: "entries s = e # es" using assms by (cases "entries s") auto
  have "(fst (first_max e es), snd (first_max e es)) \<in> set (entries s)"
    using first_max_in[of e es] by (simp add: e)
  moreover have "\<forall>x\<in>set (entries s). fst x \<le> fst (first_max e es)"
    using first_max_ge[of _ e es] by (simp add: e)
  ultimately show ?thesis by (simp add: cv_minMaxLoc_def e Let_def)
qed



lemma pair_on_white:
  "paste [[black, white]] 1 1 (solid 3 2 white) = [[white, white, white], [white, black, white]]"
  by (simp add: paste_def solid_def eval_nat_numeral)

lemma pair_on_white_surface:
  "cv_matchTemplate [[white, white, white], [white, black, white]] [[black, white]]
     = Inr [[0, 0], [-1, 1]]"
  by (simp add: cv_matchTemplate_def shape0_def shape1_def Let_def deviations_def chan_def
        centred_def mean_def dot_def channels_def ccoeff_normed_def window_def black_def white_def
        upt_conv_Cons)

lemma short_by_sel:
  "path_exists (short_by d cv) = path_exists cv" "imread (short_by d cv) = imread cv"
  "minMaxLoc (short_by d cv) = minMaxLoc cv"
  by (simp_all add: short_by_def)

lemma short_surface:
  "matchTemplate (short_by (1/4000000) (opencv fs))
     [[white, white, white], [white, black, white]] [[black, white]]
     = Inr [[- (1/4000000), - (1/4000000)], [- (4000001/4000000), 3999999/4000000]]"
  by (simp add: short_by_def opencv_sel pair_on_white_surface)

lemma short_entries:
  "entries [[- (1/4000000), - (1/4000000)], [- (4000001/4000000), 3999999/4000000 :: real]]
     = [(- (1/4000000), (0, 0)), (- (1/4000000), (1, 0)),
        (- (4000001/4000000), (0, 1)), (3999999/4000000, (1, 1))]"
  by (simp add: entries_def enumerate_Suc_eq upt_conv_Cons)

lemma short_extremes:
  "cv_minMaxLoc [[- (1/4000000), - (1/4000000)], [- (4000001/4000000), 3999999/4000000]]
     = Inr (- (4000001/4000000), 3999999/4000000, (0, 1), (1, 1))"
  by (simp add: cv_minMaxLoc_def short_entries Let_def)

lemma short_read:
  "path_exists (short_by d (opencv (two_files ref shot))) ''shot.png''"
  "imread (short_by d (opencv (two_files ref shot))) ''shot.png'' = Inr (Some shot)"
  by (simp_all add: short_by_sel opencv_read)

subsection \<open>The found flag and the threshold\<close>

lemma single_found_iff:
  assumes "0 < threshold self"
  shows "found (result (detect_ice_butterfly cv self p))
           \<longleftrightarrow> threshold self \<le> confidence (result (detect_ice_butterfly cv self p))"
  using assms
  by (auto simp: sel_defs detect_ice_butterfly_def Let_def
           split: option.splits sum.splits prod.splits)

lemma multi_found_iff:
  assumes "0 < threshold self"
  shows "found (result (detect_multiple_scales cv self p))
           \<longleftrightarrow> threshold self \<le> confidence (result (detect_multiple_scales cv self p))"
  using assms
  by (auto simp: sel_defs detect_multiple_scales_def Let_def
           split: option.splits sum.splits prod.splits)

text \<open>
  C1, as stated, at threshold 0: an object whose reference was never loaded returns
  \<open>(False, 0.0, None)\<close>; the flag is false although the confidence 0.0 reaches the
  threshold 0.
\<close>

theorem found_iff_threshold_fails_at_zero:
  "\<not> (found (result (detect_ice_butterfly (opencv no_files) (unloaded 0) ''shot.png''))
      \<longleftrightarrow> threshold (unloaded 0)
             \<le> confidence (result (detect_ice_butterfly (opencv no_files) (unloaded 0) ''shot.png'')))"
  by (simp add: sel_defs detect_ice_butterfly_def unloaded_def)

text \<open>
  C1, amended: for every threshold greater than 0, whatever the library answers and
  on every return path, \<open>detect_ice_butterfly\<close> and \<open>detect_multiple_scales\<close> return
  a found flag that is true exactly when the returned confidence is at least the stored
  threshold.
\<close>

theorem found_iff_confidence_reaches_threshold:
  assumes "0 < threshold self"
  shows "(found (result (detect_ice_butterfly cv self p))
            \<longleftrightarrow> threshold self \<le> confidence (result (detect_ice_butterfly cv self p)))
       \<and> (found (result (detect_multiple_scales cv self p))
            \<longleftrightarrow> threshold self \<le> confidence (result (detect_multiple_scales cv self p)))"
  using single_found_iff[OF assms] multi_found_iff[OF assms] by blast

text \<open>The amended C1 at threshold 0.8, on a reference of a black and a white pixel and a
  screenshot equal to it.\<close>

theorem found_iff_confidence_reaches_threshold_witness:
  "0 < threshold (loaded [[black, white]] (4/5))
   \<and> (found (result (detect_ice_butterfly (opencv (two_files [[black, white]] [[black, white]]))
                      (loaded [[black, white]] (4/5)) ''shot.png''))
        \<longleftrightarrow> threshold (loaded [[black, white]] (4/5))
             \<le> confidence (result (detect_ice_butterfly
                    (opencv (two_files [[black, white]] [[black, white]]))
                    (loaded [[black, white]] (4/5)) ''shot.png'')))
   \<and> (found (result (detect_multiple_scales (opencv (two_files [[black, white]] [[black, white]]))
                      (loaded [[black, white]] (4/5)) ''shot.png''))
        \<longleftrightarrow> threshold (loaded [[black, white]] (4/5))
             \<le> confidence (result (detect_multiple_scales
                    (opencv (two_files [[black, white]] [[black, white]]))
                    (loaded [[black, white]] (4/5)) ''shot.png'')))"
proof -
  have t: "0 < threshold (loaded [[black, white]] (4/5))" by (simp add: loaded_def)
  show ?thesis
    using found_iff_confidence_reaches_threshold
            [OF t, of "opencv (two_files [[black, white]] [[black, white]])" "''shot.png''"] t
    by blast
qed

subsection \<open>A reference larger than the screenshot\<close>

text \<open>
  C2 says that \<open>detect_ice_butterfly\<close> returns \<open>(False, 0.0, None)\<close> when the reference
  is larger than the screenshot. The method has no size check of its own (the loop of
  \<open>detect_multiple_scales\<close> has one) and relies on \<open>cv2.matchTemplate\<close> raising. With a
  3 by 3 reference and a 2 by 2 screenshot of one colour the library exchanges the two
  images instead, and the method reports a match of confidence 1.0 at \<open>(0, 0)\<close>.
\<close>

theorem oversized_reference_is_matched:
  "shape0 (solid 3 3 red) > shape0 (solid 2 2 blue)
   \<and> shape1 (solid 3 3 red) > shape1 (solid 2 2 blue)
   \<and> result (detect_ice_butterfly (opencv (two_files (solid 3 3 red) (solid 2 2 blue)))
               (loaded (solid 3 3 red) (4/5)) ''shot.png'') = (True, 1, Some (0, 0))"
proof -
  let ?cv = "opencv (two_files (solid 3 3 red) (solid 2 2 blue))"
  have m: "matchTemplate ?cv (solid 2 2 blue) (solid 3 3 red)
             = Inr (replicate (Suc 1) (replicate (Suc 1) 1))"
    using cv_matchTemplate_exchanged[of "solid 2 2 blue" "solid 3 3 red"]
      no_variance_solid[of 2 2 blue]
    by (simp add: opencv_sel shape0_solid shape1_solid del: replicate_Suc)
  have x: "minMaxLoc ?cv (replicate (Suc 1) (replicate (Suc 1) 1)) = Inr (1, 1, (0, 0), (0, 0))"
    by (simp only: opencv_sel cv_minMaxLoc_const)
  have "result (detect_ice_butterfly ?cv (loaded (solid 3 3 red) (4/5)) ''shot.png'')
          = (threshold (loaded (solid 3 3 red) (4/5)) \<le> 1, 1, Some (0, 0))"
    by (rule single_scale_result[OF _ opencv_read(1,2) m x]) (simp add: loaded_def)
  then show ?thesis by (simp add: loaded_def shape0_solid shape1_solid)
qed

subsection \<open>The best score over the scales\<close>




subsection \<open>No valid scale\<close>

text \<open>
  C4, as stated, at threshold 0: a 4 by 4 reference and a 1 by 1 screenshot leave no
  valid scale, and the call returns found = \<open>True\<close> with confidence 0.0 and no position.
\<close>

theorem no_valid_scale_found_at_threshold_zero:
  "map (try_scale (opencv (two_files (solid 4 4 red) (solid 1 1 blue)))
          (solid 4 4 red) (solid 1 1 blue)) scales
     = [Inr None, Inr None, Inr None, Inr None, Inr None]
   \<and> result (detect_multiple_scales (opencv (two_files (solid 4 4 red) (solid 1 1 blue)))
               (loaded (solid 4 4 red) 0) ''shot.png'') = (True, 0, None)"
proof -
  let ?cv = "opencv (two_files (solid 4 4 red) (solid 1 1 blue))"
  have skip: "\<forall>s\<in>set scales. try_scale ?cv (solid 4 4 red) (solid 1 1 blue) s = Inr None"
    unfolding scales_def
    by (auto intro!: try_scale_too_large simp: shape0_solid shape1_solid py_int_def)
  have "result (detect_multiple_scales ?cv (loaded (solid 4 4 red) 0) ''shot.png'')
      = (threshold (loaded (solid 4 4 red) 0) \<le> best_confidence [], best_confidence [],
         best_position [])"
    by (rule multi_scale_result[OF _ opencv_read(1,2) scale_scores_none[OF skip]])
       (simp add: loaded_def)
  then show ?thesis
    using skip by (simp add: best_confidence_def best_position_def loaded_def scales_def)
qed

text \<open>
  C4, amended: for every threshold greater than 0, a call to \<open>detect_multiple_scales\<close>
  in which every scale is skipped (requested width or height not positive, or resized
  template larger than the screenshot in a dimension) returns exactly
  \<open>(False, 0.0, None)\<close>.
\<close>

theorem no_valid_scale_returns_nothing:
  assumes "0 < threshold self"
    and "reference_image self = Some ref" "path_exists cv p" "imread cv p = Inr (Some shot)"
    and "\<forall>s\<in>set scales. try_scale cv ref shot s = Inr None"
  shows "result (detect_multiple_scales cv self p) = (False, 0, None)"
  using multi_scale_result[OF assms(2-4) scale_scores_none[OF assms(5)]] assms(1)
  by (simp add: best_confidence_def best_position_def)

text \<open>The amended C4 on the 4 by 4 reference and the 1 by 1 screenshot, at threshold
  0.8.\<close>

theorem no_valid_scale_returns_nothing_witness:
  "0 < threshold (loaded (solid 4 4 red) (4/5))
   \<and> reference_image (loaded (solid 4 4 red) (4/5)) = Some (solid 4 4 red)
   \<and> path_exists (opencv (two_files (solid 4 4 red) (solid 1 1 blue))) ''shot.png''
   \<and> imread (opencv (two_files (solid 4 4 red) (solid 1 1 blue))) ''shot.png''
        = Inr (Some (solid 1 1 blue))
   \<and> map (try_scale (opencv (two_files (solid 4 4 red) (solid 1 1 blue)))
            (solid 4 4 red) (solid 1 1 blue)) scales
        = [Inr None, Inr None, Inr None, Inr None, Inr None]
   \<and> result (detect_multiple_scales (opencv (two_files (solid 4 4 red) (solid 1 1 blue)))
               (loaded (solid 4 4 red) (4/5)) ''shot.png'') = (False, 0, None)"
proof -
  let ?cv = "opencv (two_files (solid 4 4 red) (solid 1 1 blue))"
  have t: "0 < threshold (loaded (solid 4 4 red) (4/5))"
    and r: "reference_image (loaded (solid 4 4 red) (4/5)) = Some (solid 4 4 red)"
    by (simp_all add: loaded_def)
  have skip: "\<forall>s\<in>set scales. try_scale ?cv (solid 4 4 red) (solid 1 1 blue) s = Inr None"
    unfolding scales_def
    by (auto intro!: try_scale_too_large simp: shape0_solid shape1_solid py_int_def)
  show ?thesis
    using no_valid_scale_returns_nothing[OF t r opencv_read(1,2) skip] t r skip opencv_read(1,2)
    by (simp add: scales_def)
qed

subsection \<open>A reference pasted onto a canvas\<close>




text \<open>With the same library and screenshot and threshold 1.0 the confidence 0.99999975
  does not reach the threshold, and found is false: the bound \<open>1 - eps\<close> on the threshold
  is needed.\<close>

lemma rounding_misses_threshold_one:
  "result (detect_ice_butterfly (short_by (1/4000000)
        (opencv (two_files [[black, white]] (paste [[black, white]] 1 1 (solid 3 2 white)))))
        (loaded [[black, white]] 1) ''shot.png'') = (False, 3999999/4000000, Some (1, 1))"
proof -
  let ?R = "[[black, white]]"
  let ?S = "paste ?R 1 1 (solid 3 2 white)"
  let ?cv = "short_by (1/4000000) (opencv (two_files ?R ?S))"
  let ?surf = "[[- (1/4000000), - (1/4000000)], [- (4000001/4000000), 3999999/4000000 :: real]]"
  have r: "reference_image (loaded ?R 1) = Some ?R" by (simp add: loaded_def)
  have m: "matchTemplate ?cv ?S ?R = Inr ?surf"
    by (simp only: pair_on_white short_surface)
  have x: "minMaxLoc ?cv ?surf = Inr (- (4000001/4000000), 3999999/4000000, (0, 1), (1, 1))"
    by (simp only: short_by_sel opencv_sel short_extremes)
  show ?thesis
    using single_scale_result[OF r short_read m x] by (simp add: loaded_def)
qed

subsection \<open>The unavailable state\<close>

text \<open>
  C6: when the constructor is called with a reference path that does not exist, the
  object it yields has no reference image, and every later call to
  \<open>detect_ice_butterfly\<close>, for every screenshot path and whatever the file system and
  the library have become, returns \<open>(False, 0.0, None)\<close>, queries no path and reads no
  file (its only event is the warning of the logger), and leaves the object as it was.
\<close>

theorem missing_reference_short_circuits:
  assumes "\<not> path_exists cv path" "ImageRecognition_init cv path thr = Inr (d, ev)"
  shows "reference_image d = None
       \<and> result (detect_ice_butterfly cv' d p) = (False, 0, None)
       \<and> events (detect_ice_butterfly cv' d p) = [Log Warning]
       \<and> self_after (detect_ice_butterfly cv' d p) = d"
proof -
  from assms have "reference_image d = None"
    by (auto simp: ImageRecognition_init_def load_reference_image_def Let_def)
  then show ?thesis by (simp add: sel_defs detect_ice_butterfly_def)
qed

text \<open>C6 on a constructor call in an empty file system, followed by a detection in a
  file system that holds a screenshot.\<close>

theorem missing_reference_short_circuits_witness:
  "\<not> path_exists (opencv no_files) ''missing.png''
   \<and> ImageRecognition_init (opencv no_files) ''missing.png'' (4/5)
        = Inr (unloaded (4/5), [Exists ''missing.png'', Log Error])
   \<and> reference_image (unloaded (4/5)) = None
   \<and> result (detect_ice_butterfly (opencv (two_files [[black]] [[white]])) (unloaded (4/5))
               ''shot.png'') = (False, 0, None)
   \<and> events (detect_ice_butterfly (opencv (two_files [[black]] [[white]])) (unloaded (4/5))
               ''shot.png'') = [Log Warning]
   \<and> self_after (detect_ice_butterfly (opencv (two_files [[black]] [[white]])) (unloaded (4/5))
               ''shot.png'') = unloaded (4/5)"
proof -
  have b: "ImageRecognition_init (opencv no_files) ''missing.png'' (4/5)
        = Inr (unloaded (4/5), [Exists ''missing.png'', Log Error])"
    by (simp add: ImageRecognition_init_def load_reference_image_def opencv_missing unloaded_def)
  show ?thesis
    using missing_reference_short_circuits
            [OF opencv_missing b, of "opencv (two_files [[black]] [[white]])" "''shot.png''"]
      opencv_missing b
    by simp
qed

subsection \<open>The constructor\<close>

text \<open>
  C7, as stated, on a path that does not exist: the constructor does not fail; it
  returns an object, whose reference image is \<open>None\<close>.
\<close>

theorem init_with_missing_reference_returns_object:
  "\<not> path_exists (opencv no_files) ''missing.png''
   \<and> ImageRecognition_init (opencv no_files) ''missing.png'' (4/5)
        = Inr (unloaded (4/5), [Exists ''missing.png'', Log Error])"
  by (simp add: ImageRecognition_init_def load_reference_image_def opencv_missing unloaded_def)

text \<open>
  C7, amended: the constructor never fails. For every reference path and threshold it
  yields an object that stores both, and when the file does not exist or cannot be
  decoded (\<open>cv2.imread\<close> returns \<open>None\<close> or raises) it logs an error (its events are
  the query of the path, the read if the path exists, and one error record) and leaves
  the object in the unavailable state: its reference image is \<open>None\<close>, and every later
  call to \<open>detect_ice_butterfly\<close> or \<open>detect_multiple_scales\<close> returns
  \<open>(False, 0.0, None)\<close>.
\<close>

theorem init_never_fails:
  "\<exists>d ev. ImageRecognition_init cv path thr = Inr (d, ev)
      \<and> reference_image_path d = path \<and> threshold d = thr
      \<and> (\<not> path_exists cv path \<or> imread cv path = Inr None \<or> isl (imread cv path)
           \<longrightarrow> reference_image d = None
               \<and> ev = (if path_exists cv path then [Exists path, Imread path, Log Error]
                        else [Exists path, Log Error])
               \<and> Log Error \<in> set ev
               \<and> result (detect_ice_butterfly cv' d p) = (False, 0, None)
               \<and> result (detect_multiple_scales cv' d p) = (False, 0, None))"
  by (auto simp: ImageRecognition_init_def load_reference_image_def Let_def sel_defs
        detect_ice_butterfly_def detect_multiple_scales_def
      split: sum.splits option.splits)

text \<open>The amended C7 on a path that does not exist, followed by detections in a file
  system that holds a screenshot.\<close>

theorem init_never_fails_witness:
  "\<exists>d ev. ImageRecognition_init (opencv no_files) ''missing.png'' (4/5) = Inr (d, ev)
      \<and> reference_image_path d = ''missing.png'' \<and> threshold d = 4/5
      \<and> \<not> path_exists (opencv no_files) ''missing.png''
      \<and> reference_image d = None
      \<and> ev = [Exists ''missing.png'', Log Error]
      \<and> Log Error \<in> set ev
      \<and> result (detect_ice_butterfly (opencv (two_files [[black]] [[white]])) d ''shot.png'')
           = (False, 0, None)
      \<and> result (detect_multiple_scales (opencv (two_files [[black]] [[white]])) d ''shot.png'')
           = (False, 0, None)"
  using init_never_fails[of "opencv no_files" "''missing.png''" "4/5"
          "opencv (two_files [[black]] [[white]])" "''shot.png''"] opencv_missing
  by auto

subsection \<open>Determinism and the stored state\<close>

text \<open>
  C8: \<open>detect_ice_butterfly\<close> leaves the object as it was, and its triple is a function
  of the loaded reference, the threshold and the pixels of the screenshot: two calls
  with the same matching routines, the same reference and threshold, and screenshots
  that decode to the same pixels return the same triple, whatever the paths, the other
  files and the other attributes are.
\<close>

theorem detect_depends_on_pixels_only:
  assumes "matchTemplate cv1 = matchTemplate cv2" "minMaxLoc cv1 = minMaxLoc cv2"
    and "reference_image d1 = Some ref" "reference_image d2 = Some ref"
    and "threshold d1 = threshold d2"
    and "path_exists cv1 p1" "imread cv1 p1 = Inr (Some shot)"
    and "path_exists cv2 p2" "imread cv2 p2 = Inr (Some shot)"
  shows "result (detect_ice_butterfly cv1 d1 p1) = result (detect_ice_butterfly cv2 d2 p2)
       \<and> self_after (detect_ice_butterfly cv1 d1 p1) = d1
       \<and> self_after (detect_ice_butterfly cv2 d2 p2) = d2"
  using assms
  by (auto simp: sel_defs detect_ice_butterfly_def Let_def split: sum.splits prod.splits)

text \<open>C8 on two file systems that hold the same screenshot under different paths.\<close>

theorem detect_depends_on_pixels_only_witness:
  "matchTemplate (opencv (two_files [[black, white]] [[white, black]]))
     = matchTemplate (opencv (two_files [[white, black]] [[red]]))
   \<and> minMaxLoc (opencv (two_files [[black, white]] [[white, black]]))
     = minMaxLoc (opencv (two_files [[white, black]] [[red]]))
   \<and> reference_image (loaded [[black, white]] (4/5)) = Some [[black, white]]
   \<and> threshold (loaded [[black, white]] (4/5)) = threshold (loaded [[black, white]] (4/5))
   \<and> path_exists (opencv (two_files [[black, white]] [[white, black]])) ''shot.png''
   \<and> imread (opencv (two_files [[black, white]] [[white, black]])) ''shot.png''
        = Inr (Some [[white, black]])
   \<and> path_exists (opencv (two_files [[white, black]] [[red]])) ''ref.png''
   \<and> imread (opencv (two_files [[white, black]] [[red]])) ''ref.png''
        = Inr (Some [[white, black]])
   \<and> result (detect_ice_butterfly (opencv (two_files [[black, white]] [[white, black]]))
               (loaded [[black, white]] (4/5)) ''shot.png'')
     = result (detect_ice_butterfly (opencv (two_files [[white, black]] [[red]]))
               (loaded [[black, white]] (4/5)) ''ref.png'')
   \<and> self_after (detect_ice_butterfly (opencv (two_files [[black, white]] [[white, black]]))
               (loaded [[black, white]] (4/5)) ''shot.png'') = loaded [[black, white]] (4/5)"
proof -
  have m: "matchTemplate (opencv (two_files [[black, white]] [[white, black]]))
             = matchTemplate (opencv (two_files [[white, black]] [[red]]))"
    and x: "minMaxLoc (opencv (two_files [[black, white]] [[white, black]]))
             = minMaxLoc (opencv (two_files [[white, black]] [[red]]))"
    by (simp_all only: opencv_sel)
  have r: "reference_image (loaded [[black, white]] (4/5)) = Some [[black, white]]"
    by (simp add: loaded_def)
  show ?thesis
    using detect_depends_on_pixels_only
            [OF m x r r refl opencv_read(1,2) opencv_read(3,4)]
      m x r opencv_read
    by simp
qed

subsection \<open>The visualization\<close>

text \<open>
  C9 says that \<open>create_detection_visualization\<close> returns true exactly when the annotated
  copy was written, and false for a bad output path. The method does not look at the
  value of \<open>cv2.imwrite\<close>, which reports a file it could not write by returning
  \<open>False\<close>: with an output path that cannot be written the method returns \<open>True\<close>.
\<close>

theorem visualization_reports_success_without_file:
  "(\<forall>img. imwrite (opencv (two_files [[red]] [[blue, blue], [blue, blue]]))
             ''/missing/out.png'' img = Inr False)
   \<and> result (create_detection_visualization
               (opencv (two_files [[red]] [[blue, blue], [blue, blue]]))
               (loaded [[red]] (4/5)) ''shot.png'' (0, 0) ''/missing/out.png'') = True"
proof -
  let ?cv = "opencv (two_files [[red]] [[blue, blue], [blue, blue]])"
  have w: "\<forall>img. imwrite ?cv ''/missing/out.png'' img = Inr False"
    by (simp add: opencv_sel cv_imwrite_def two_files_def)
  have "result (create_detection_visualization ?cv (loaded [[red]] (4/5)) ''shot.png'' (0, 0)
          ''/missing/out.png'') = True"
    by (rule visualization_ignores_imwrite
              [OF opencv_read(1) _ opencv_read(2), where written = False])
       (simp_all add: loaded_def opencv_sel cv_rectangle_def cv_putText_def
          w[rule_format, unfolded opencv_sel])
  with w show ?thesis by blast
qed

subsection \<open>The floor of the multi-scale confidence\<close>

text \<open>
  C10: \<open>detect_multiple_scales\<close> never returns a negative confidence; when matching
  succeeded and every valid scale scored 0 or less, it returns confidence 0.0 and
  position \<open>None\<close>; \<open>detect_ice_butterfly\<close> on the same inputs returns the largest
  value of its matching surface as it is, negative or not, with its position.
\<close>

theorem multi_scale_confidence_floor:
  assumes "reference_image self = Some ref" "path_exists cv p" "imread cv p = Inr (Some shot)"
    and "scale_scores cv ref shot scales = Inr scores" "\<forall>e\<in>set scores. fst e \<le> 0"
    and "matchTemplate cv shot ref = Inr res" "minMaxLoc cv res = Inr (mn, mx, mnl, mxl)"
  shows "0 \<le> confidence (result (detect_multiple_scales cv' self' p'))
       \<and> confidence (result (detect_multiple_scales cv self p)) = 0
       \<and> position_of (result (detect_multiple_scales cv self p)) = None
       \<and> confidence (result (detect_ice_butterfly cv self p)) = mx
       \<and> position_of (result (detect_ice_butterfly cv self p)) = Some mxl"
proof -
  have "Max (insert 0 (fst ` set scores)) = 0"
    using assms(5) by (intro Max_eqI) auto
  then have "best_confidence scores = 0" "best_position scores = None"
    by (simp_all add: best_confidence_def best_position_def)
  then show ?thesis
    using multi_scale_result[OF assms(1-4)] single_scale_result[OF assms(1-3,6,7)]
      multi_confidence_nonneg[of cv' self' p']
    by (simp add: confidence_def position_of_def)
qed

text \<open>C10 on the reference of a black and a white pixel and its mirror image as
  screenshot: both valid scales score -1; the multi-scale call returns confidence 0.0
  and no position, the single-scale call confidence -1 at \<open>(0, 0)\<close>.\<close>

theorem multi_scale_confidence_floor_witness:
  "reference_image (loaded [[black, white]] (4/5)) = Some [[black, white]]
   \<and> path_exists (opencv (two_files [[black, white]] [[white, black]])) ''shot.png''
   \<and> imread (opencv (two_files [[black, white]] [[white, black]])) ''shot.png''
        = Inr (Some [[white, black]])
   \<and> scale_scores (opencv (two_files [[black, white]] [[white, black]]))
        [[black, white]] [[white, black]] scales = Inr [(-1, (0, 0)), (-1, (0, 0))]
   \<and> fst (-1 :: real, (0 :: int, 0 :: int)) \<le> 0
   \<and> matchTemplate (opencv (two_files [[black, white]] [[white, black]]))
        [[white, black]] [[black, white]] = Inr [[-1]]
   \<and> minMaxLoc (opencv (two_files [[black, white]] [[white, black]])) [[-1]]
        = Inr (-1, -1, (0, 0), (0, 0))
   \<and> 0 \<le> confidence (result (detect_multiple_scales (opencv no_files) (unloaded 0) ''shot.png''))
   \<and> confidence (result (detect_multiple_scales
        (opencv (two_files [[black, white]] [[white, black]]))
        (loaded [[black, white]] (4/5)) ''shot.png'')) = 0
   \<and> position_of (result (detect_multiple_scales
        (opencv (two_files [[black, white]] [[white, black]]))
        (loaded [[black, white]] (4/5)) ''shot.png'')) = None
   \<and> confidence (result (detect_ice_butterfly
        (opencv (two_files [[black, white]] [[white, black]]))
        (loaded [[black, white]] (4/5)) ''shot.png'')) = -1
   \<and> position_of (result (detect_ice_butterfly
        (opencv (two_files [[black, white]] [[white, black]]))
        (loaded [[black, white]] (4/5)) ''shot.png'')) = Some (0, 0)"
proof -
  let ?cv = "opencv (two_files [[black, white]] [[white, black]])"
  have r: "reference_image (loaded [[black, white]] (4/5)) = Some [[black, white]]"
    by (simp add: loaded_def)
  have s: "scale_scores ?cv [[black, white]] [[white, black]] scales
             = Inr [(-1, (0, 0)), (-1, (0, 0))]"
    by (rule pair_scores[OF mirror_match])
  have n: "\<forall>e\<in>set [(-1 :: real, (0 :: int, 0 :: int)), (-1, (0, 0))]. fst e \<le> 0"
    by simp
  have m: "matchTemplate ?cv [[white, black]] [[black, white]] = Inr [[-1]]"
    by (simp only: opencv_sel mirror_match)
  have x: "minMaxLoc ?cv [[-1]] = Inr (-1, -1, (0, 0), (0, 0))"
    by (simp only: opencv_sel one_entry)
  show ?thesis
    using multi_scale_confidence_floor
            [OF r opencv_read(1,2) s n m x, of "opencv no_files" "unloaded 0" "''shot.png''"]
      r s n m x opencv_read(1,2)
    by simp
qed

end
